theory Spec2Isabelle
  imports Complex_Main
begin

section \<open>Numbers of the request body\<close>

text \<open>
  \<^verbatim>\<open>userId\<close> and \<^verbatim>\<open>amount\<close> are JavaScript numbers. The model keeps the three
  values that are not finite apart from the finite ones, because the comparisons and the
  subtraction of \<^verbatim>\<open>deductBalance\<close> and the validation of \<^verbatim>\<open>simpleBuyItem\<close> treat them
  differently. A finite number is a real number: 0.5 and 1.5 are among them (the
  rounding of doubles is left out). A field that is missing from the body
  (\<^verbatim>\<open>undefined\<close>) is \<open>None\<close>.
\<close>

datatype jsnum = NaN | PosInf | NegInf | Fin real

text \<open>\<^verbatim>\<open>a < b\<close> on numbers: every comparison with \<^verbatim>\<open>NaN\<close> is false.\<close>

fun js_lt :: "jsnum \<Rightarrow> jsnum \<Rightarrow> bool" where
  "js_lt NaN b = False"
| "js_lt a NaN = False"
| "js_lt (Fin x) (Fin y) = (x < y)"
| "js_lt (Fin x) PosInf = True"
| "js_lt (Fin x) NegInf = False"
| "js_lt PosInf b = False"
| "js_lt NegInf NegInf = False"
| "js_lt NegInf b = True"

text \<open>\<^verbatim>\<open>a <= b\<close> on numbers.\<close>

fun js_le :: "jsnum \<Rightarrow> jsnum \<Rightarrow> bool" where
  "js_le NaN b = False"
| "js_le a NaN = False"
| "js_le (Fin x) (Fin y) = (x \<le> y)"
| "js_le (Fin x) PosInf = True"
| "js_le (Fin x) NegInf = False"
| "js_le PosInf PosInf = True"
| "js_le PosInf b = False"
| "js_le NegInf b = True"

text \<open>\<^verbatim>\<open>a - b\<close> on numbers.\<close>

fun js_sub :: "jsnum \<Rightarrow> jsnum \<Rightarrow> jsnum" where
  "js_sub NaN b = NaN"
| "js_sub a NaN = NaN"
| "js_sub (Fin x) (Fin y) = Fin (x - y)"
| "js_sub (Fin x) PosInf = NegInf"
| "js_sub (Fin x) NegInf = PosInf"
| "js_sub PosInf PosInf = NaN"
| "js_sub PosInf b = PosInf"
| "js_sub NegInf NegInf = NaN"
| "js_sub NegInf b = NegInf"

text \<open>\<^verbatim>\<open>!v\<close>: \<^verbatim>\<open>undefined\<close>, \<^verbatim>\<open>0\<close> and \<^verbatim>\<open>NaN\<close> are the falsy values of a number field.\<close>

fun js_not :: "jsnum option \<Rightarrow> bool" where
  "js_not None = True"
| "js_not (Some NaN) = True"
| "js_not (Some (Fin x)) = (x = 0)"
| "js_not (Some PosInf) = False"
| "js_not (Some NegInf) = False"

text \<open>\<^verbatim>\<open>ToNumber\<close>: \<^verbatim>\<open>undefined\<close> converts to \<^verbatim>\<open>NaN\<close>.\<close>

fun js_number :: "jsnum option \<Rightarrow> jsnum" where
  "js_number None = NaN"
| "js_number (Some n) = n"

text \<open>The global \<^verbatim>\<open>isNaN(v)\<close> converts its argument to a number first.\<close>

definition isNaN :: "jsnum option \<Rightarrow> bool" where
  "isNaN v = (js_number v = NaN)"

section \<open>The store accessor\<close>

text \<open>A row of the \<^verbatim>\<open>users\<close> table, as \<^verbatim>\<open>createTable\<close> declares it.\<close>

record user_row =
  user_id :: int
  balance :: int
  email :: string
  password :: string

text \<open>The statements \<^verbatim>\<open>UsersRepository\<close> sends for a debit, with their parameters.\<close>

datatype statement =
    Begin
  | Rollback
  | Commit
  | SelectForUpdate jsnum
  | UpdateBalance jsnum jsnum

datatype store_error = QueryFailed | InvalidInteger

text \<open>
  Modelled from the spec: the \<^verbatim>\<open>client\<close> of \<^verbatim>\<open>config/db.config\<close>, the store accessor
  that "executes parameterized queries and transaction control commands against the
  relational store" over one process-wide connection. The state is what that connection
  sees: the rows of \<^verbatim>\<open>users\<close>, the rows as they were when the open transaction began
  (\<open>None\<close> when no transaction is open), the statements sent so far, and a schedule of
  connection faults, one entry per statement still to come (\<open>True\<close>: that statement is
  rejected; an exhausted schedule rejects nothing).
\<close>

record store =
  rows :: "user_row list"
  snapshot :: "user_row list option"
  faults :: "bool list"
  sent :: "statement list"

text \<open>
  Modelled from the spec: how the relational store reads a parameter of an \<^verbatim>\<open>INT\<close> column
  (\<^verbatim>\<open>id SERIAL\<close>, \<^verbatim>\<open>balance INT\<close> in \<^verbatim>\<open>createTable\<close>). The parameter is accepted when it
  is a whole number from -2147483648 to 2147483647; a number with a fraction, a number
  out of that range, \<^verbatim>\<open>NaN\<close> and the infinities are not integers of the store.
\<close>

definition int4 :: "jsnum \<Rightarrow> int option" where
  "int4 v =
     (case v of
        Fin x \<Rightarrow>
          if x = of_int \<lfloor>x\<rfloor> \<and> - 2147483648 \<le> x \<and> x \<le> 2147483647 then Some \<lfloor>x\<rfloor> else None
      | _ \<Rightarrow> None)"

text \<open>
  Modelled from the spec: what the relational store behind that \<^verbatim>\<open>client\<close> does with a
  statement the connection has accepted. \<^verbatim>\<open>BEGIN\<close> opens a transaction unless one is
  open, \<^verbatim>\<open>ROLLBACK\<close> restores the rows the open transaction began with, \<^verbatim>\<open>COMMIT\<close>
  keeps the rows as they are; the \<^verbatim>\<open>SELECT\<close> returns the rows with the given id and the
  \<^verbatim>\<open>UPDATE\<close> sets their balance and returns them. A statement with a parameter that is
  not an integer of the store is rejected (\<open>InvalidInteger\<close>: invalid syntax or out of
  range) and changes nothing.
\<close>

fun exec :: "statement \<Rightarrow> store \<Rightarrow> (store_error + user_row list) \<times> store" where
  "exec Begin st =
     (Inr [], st\<lparr>snapshot := (case snapshot st of None \<Rightarrow> Some (rows st) | Some s \<Rightarrow> Some s)\<rparr>)"
| "exec Rollback st =
     (Inr [], st\<lparr>rows := (case snapshot st of None \<Rightarrow> rows st | Some s \<Rightarrow> s), snapshot := None\<rparr>)"
| "exec Commit st = (Inr [], st\<lparr>snapshot := None\<rparr>)"
| "exec (SelectForUpdate v) st =
     (case int4 v of
        None \<Rightarrow> (Inl InvalidInteger, st)
      | Some i \<Rightarrow> (Inr (filter (\<lambda>r. user_id r = i) (rows st)), st))"
| "exec (UpdateBalance v w) st =
     (case int4 v of
        None \<Rightarrow> (Inl InvalidInteger, st)
      | Some b \<Rightarrow>
          (case int4 w of
             None \<Rightarrow> (Inl InvalidInteger, st)
           | Some i \<Rightarrow>
               (Inr (map (\<lambda>r. r\<lparr>balance := b\<rparr>) (filter (\<lambda>r. user_id r = i) (rows st))),
                st\<lparr>rows := map (\<lambda>r. if user_id r = i then r\<lparr>balance := b\<rparr> else r)
                              (rows st)\<rparr>)))"

text \<open>\<^verbatim>\<open>this.repository.query(sql, params)\<close>: the statement is recorded, then the schedule
  decides whether the connection rejects it.\<close>

definition query :: "statement \<Rightarrow> store \<Rightarrow> (store_error + user_row list) \<times> store" where
  "query s st =
     (let st' = st\<lparr>sent := sent st @ [s], faults := tl (faults st)\<rparr>
      in if faults st \<noteq> [] \<and> hd (faults st) then (Inl QueryFailed, st') else exec s st')"

text \<open>The rows a committed reader sees: an open transaction's changes are not among them.\<close>

definition committed :: "store \<Rightarrow> user_row list" where
  "committed st = (case snapshot st of None \<Rightarrow> rows st | Some s \<Rightarrow> s)"

section \<open>UsersRepository\<close>

definition begin_txn :: "store \<Rightarrow> (store_error + user_row list) \<times> store" where
  "begin_txn st = query Begin st"

definition rollBack :: "store \<Rightarrow> (store_error + user_row list) \<times> store" where
  "rollBack st = query Rollback st"

definition commit :: "store \<Rightarrow> (store_error + user_row list) \<times> store" where
  "commit st = query Commit st"

text \<open>
  \<^verbatim>\<open>getUserForUpdate\<close> returns the array of rows when there is more than one, and
  \<^verbatim>\<open>rows[0]\<close> otherwise, which is \<^verbatim>\<open>undefined\<close> for an empty result.
\<close>

datatype lookup = NoRow | OneRow user_row | ManyRows "user_row list"

definition getUserForUpdate :: "jsnum \<Rightarrow> store \<Rightarrow> (store_error + lookup) \<times> store" where
  "getUserForUpdate i st =
     (case query (SelectForUpdate i) st of
        (Inl e, st') \<Rightarrow> (Inl e, st')
      | (Inr rs, st') \<Rightarrow>
          (Inr (if length rs > 1 then ManyRows rs
                else (case rs of [] \<Rightarrow> NoRow | r # _ \<Rightarrow> OneRow r)), st'))"

definition updateUserBalance ::
  "jsnum \<Rightarrow> jsnum \<Rightarrow> store \<Rightarrow> (store_error + user_row list) \<times> store" where
  "updateUserBalance userId newBalance st = query (UpdateBalance newBalance userId) st"

section \<open>UserService.deductBalance\<close>

text \<open>What \<^verbatim>\<open>deductBalance\<close> returns: \<^verbatim>\<open>{success: true, user: {id, balance}}\<close> or
  \<^verbatim>\<open>{success: false, msg}\<close>, where \<^verbatim>\<open>msg\<close> is a text or the error that was caught.\<close>

datatype message = Text string | Caught store_error

datatype debit_result = Success jsnum jsnum | Failure message

text \<open>\<^verbatim>\<open>res.balance\<close>: the balance of the row; an array has no such property, and
  \<^verbatim>\<open>undefined\<close> is \<^verbatim>\<open>NaN\<close> in the comparison and in the subtraction that follow.\<close>

fun balance_of :: "lookup \<Rightarrow> jsnum" where
  "balance_of (OneRow r) = Fin (of_int (balance r))"
| "balance_of (ManyRows rs) = NaN"
| "balance_of NoRow = NaN"

text \<open>The body of the \<^verbatim>\<open>try\<close> block. \<open>Inl e\<close>: the awaited call threw \<open>e\<close>.\<close>

definition try_deduct :: "jsnum \<Rightarrow> jsnum \<Rightarrow> store \<Rightarrow> (store_error + debit_result) \<times> store" where
  "try_deduct userId amount st0 =
     (case begin_txn st0 of
        (Inl e, st1) \<Rightarrow> (Inl e, st1)
      | (Inr _, st1) \<Rightarrow>
     (case getUserForUpdate userId st1 of
        (Inl e, st2) \<Rightarrow> (Inl e, st2)
      | (Inr res, st2) \<Rightarrow>
          if res = NoRow then
            (case rollBack st2 of
               (Inl e, st3) \<Rightarrow> (Inl e, st3)
             | (Inr _, st3) \<Rightarrow> (Inr (Failure (Text ''User not found'')), st3))
          else if js_lt (balance_of res) amount then
            (case rollBack st2 of
               (Inl e, st3) \<Rightarrow> (Inl e, st3)
             | (Inr _, st3) \<Rightarrow> (Inr (Failure (Text ''Insufficient balance'')), st3))
          else
            (let newBalance = js_sub (balance_of res) amount
             in case updateUserBalance userId newBalance st2 of
                  (Inl e, st3) \<Rightarrow> (Inl e, st3)
                | (Inr _, st3) \<Rightarrow>
                    (case commit st3 of
                       (Inl e, st4) \<Rightarrow> (Inl e, st4)
                     | (Inr _, st4) \<Rightarrow> (Inr (Success userId newBalance), st4)))))"

text \<open>The \<^verbatim>\<open>catch\<close> block rolls back and returns the error as the message; a rollback
  that throws there leaves \<^verbatim>\<open>deductBalance\<close> itself throwing.\<close>

definition deductBalance :: "jsnum \<Rightarrow> jsnum \<Rightarrow> store \<Rightarrow> (store_error + debit_result) \<times> store" where
  "deductBalance userId amount st =
     (case try_deduct userId amount st of
        (Inr r, st') \<Rightarrow> (Inr r, st')
      | (Inl e, st') \<Rightarrow>
          (case rollBack st' of
             (Inl e', st'') \<Rightarrow> (Inl e', st'')
           | (Inr _, st'') \<Rightarrow> (Inr (Failure (Caught e)), st'')))"

section \<open>UserController.simpleBuyItem\<close>

text \<open>The body of \<^verbatim>\<open>POST /users/buy\<close>; each field may be missing.\<close>

record buy_body =
  userId :: "jsnum option"
  amount :: "jsnum option"

datatype thrown = TypeError | StoreError store_error

text \<open>The object \<^verbatim>\<open>res.status(statusCode).send({statusCode, msg, user, error})\<close> sends.\<close>

record buy_reply =
  statusCode :: nat
  msg :: message
  user :: "(jsnum \<times> jsnum) option"
  error :: "thrown option"

text \<open>
  A request with no body has \<^verbatim>\<open>req.body\<close> undefined: destructuring it throws a
  \<^verbatim>\<open>TypeError\<close>, which the handler's \<^verbatim>\<open>catch\<close> answers with 500.
\<close>

definition simpleBuyItem :: "buy_body option \<Rightarrow> store \<Rightarrow> buy_reply \<times> store" where
  "simpleBuyItem body st =
     (case body of
        None \<Rightarrow>
          (\<lparr>statusCode = 500, msg = Text ''Internal Server Error'', user = None,
            error = Some TypeError\<rparr>, st)
      | Some b \<Rightarrow>
          if js_not (userId b) \<or> js_not (amount b) \<or> isNaN (userId b) \<or> isNaN (amount b)
             \<or> js_le (js_number (amount b)) (Fin 0)
          then (\<lparr>statusCode = 400, msg = Text ''Invalid userId or amount'', user = None,
                 error = None\<rparr>, st)
          else
            (case deductBalance (js_number (userId b)) (js_number (amount b)) st of
               (Inr (Success i nb), st') \<Rightarrow>
                 (\<lparr>statusCode = 200, msg = Text ''Balance deducted successfully'',
                   user = Some (i, nb), error = None\<rparr>, st')
             | (Inr (Failure m), st') \<Rightarrow>
                 (\<lparr>statusCode = 400, msg = m, user = None, error = None\<rparr>, st')
             | (Inl e, st') \<Rightarrow>
                 (\<lparr>statusCode = 500, msg = Text ''Internal Server Error'', user = None,
                   error = Some (StoreError e)\<rparr>, st')))"

text \<open>
  The \<^verbatim>\<open>users\<close> table after \<^verbatim>\<open>insertDefaultRows\<close>: three accounts with balance 1000.
  The password column holds a bcrypt hash, abbreviated here; no transaction is open, no
  statement has been sent and no fault is scheduled.
\<close>

definition seeded_store :: store where
  "seeded_store =
     \<lparr>rows = [\<lparr>user_id = 1, balance = 1000, email = ''test@example.com'', password = ''hash''\<rparr>,
              \<lparr>user_id = 2, balance = 1000, email = ''test2@example.com'', password = ''hash''\<rparr>,
              \<lparr>user_id = 3, balance = 1000, email = ''test3@example.com'', password = ''hash''\<rparr>],
      snapshot = None, faults = [], sent = []\<rparr>"

section \<open>The fetch task (skin.worker.js)\<close>

text \<open>An item of a price source listing; \<^verbatim>\<open>min_price\<close> is a JSON number or \<^verbatim>\<open>null\<close>.\<close>

record source_item =
  market_hash_name :: string
  min_price :: "real option"

text \<open>A record of the merged list.\<close>

record item =
  name :: string
  min_price_non_tradable :: "real option"
  min_price_tradable :: "real option"

text \<open>\<^verbatim>\<open>p || null\<close> on a price: \<^verbatim>\<open>undefined\<close>, \<^verbatim>\<open>null\<close> and the falsy number 0 give
  \<^verbatim>\<open>null\<close>.\<close>

fun or_null :: "real option \<Rightarrow> real option" where
  "or_null None = None"
| "or_null (Some p) = (if p = 0 then None else Some p)"

text \<open>\<^verbatim>\<open>tradableItems[index]?.min_price\<close>: \<^verbatim>\<open>undefined\<close> when the array has no such index.\<close>

definition price_at :: "source_item list \<Rightarrow> nat \<Rightarrow> real option" where
  "price_at tradableItems index =
     (if index < length tradableItems then min_price (tradableItems ! index) else None)"

text \<open>\<^verbatim>\<open>array.map((item, index) => f(item, index))\<close>.\<close>

definition map_indexed :: "('a \<Rightarrow> nat \<Rightarrow> 'b) \<Rightarrow> 'a list \<Rightarrow> 'b list" where
  "map_indexed f xs = map (\<lambda>(x, i). f x i) (zip xs [0..<length xs])"

definition merge_items :: "source_item list \<Rightarrow> source_item list \<Rightarrow> item list" where
  "merge_items nonTradableItems tradableItems =
     map_indexed
       (\<lambda>it index.
          \<lparr>name = market_hash_name it,
           min_price_non_tradable = min_price it,
           min_price_tradable = or_null (price_at tradableItems index)\<rparr>)
       nonTradableItems"

text \<open>
  \<^verbatim>\<open>JSON.stringify\<close> on an array: the texts of the elements between brackets, separated
  by commas. The text of one element (\<open>enc\<close>) is a parameter: it prints numbers, which
  is the runtime's business.
\<close>

fun join_commas :: "string list \<Rightarrow> string" where
  "join_commas [] = []"
| "join_commas [x] = x"
| "join_commas (x # y # ys) = x @ '','' @ join_commas (y # ys)"

definition JSON_stringify_array :: "('a \<Rightarrow> string) \<Rightarrow> 'a list \<Rightarrow> string" where
  "JSON_stringify_array enc xs = ''['' @ join_commas (map enc xs) @ '']''"

text \<open>
  \<^verbatim>\<open>JSON.stringify({ error: 'Failed to fetch items', details: error.message })\<close>; the
  text of a string (\<open>quote\<close>: the quotes and the escapes) is a parameter.
\<close>

definition error_text :: "(string \<Rightarrow> string) \<Rightarrow> string \<Rightarrow> string" where
  \<open>error_text quote details =
     ''{"error":"Failed to fetch items","details":'' @ quote details @ ''}''\<close>

text \<open>What \<^verbatim>\<open>Promise.all\<close> of the two requests settles to: both listings (the
  non-tradable one first), or the message of the request that failed.\<close>

datatype upstream = Fetched "source_item list" "source_item list" | RequestFailed string

text \<open>
  \<^verbatim>\<open>fetchItems\<close>: the messages it posts to the parent, in order; \<open>None\<close> is the
  \<^verbatim>\<open>null\<close> that reports completion. The \<^verbatim>\<open>catch\<close> posts the error text and nothing
  else.
\<close>

definition fetchItems ::
  "(item \<Rightarrow> string) \<Rightarrow> (string \<Rightarrow> string) \<Rightarrow> upstream \<Rightarrow> string option list" where
  "fetchItems enc quote up =
     (case up of
        Fetched nonTradableItems tradableItems \<Rightarrow>
          [Some (JSON_stringify_array enc (merge_items nonTradableItems tradableItems)), None]
      | RequestFailed details \<Rightarrow> [Some (error_text quote details)])"

text \<open>
  What the parent observes of a worker thread: the messages it posted, the error it died
  of if any (the \<^verbatim>\<open>error\<close> event), and its exit code.
\<close>

record worker_run =
  posted :: "string option list"
  uncaught :: "string option"
  exit_code :: int

text \<open>
  The thread of \<^verbatim>\<open>skin.worker.js\<close> calls \<^verbatim>\<open>fetchItems\<close> and has nothing else to do.
  \<^verbatim>\<open>fetchItems\<close> catches what its body throws, so the thread ends with no uncaught error
  and exit code 0 on either path.
\<close>

definition skin_worker ::
  "(item \<Rightarrow> string) \<Rightarrow> (string \<Rightarrow> string) \<Rightarrow> upstream \<Rightarrow> worker_run" where
  "skin_worker enc quote up =
     \<lparr>posted = fetchItems enc quote up, uncaught = None, exit_code = 0\<rparr>"

section \<open>The key-value cache\<close>

text \<open>
  The Redis instance of \<^verbatim>\<open>skin.service.ts\<close>: whether the connection answers, and for
  each key its value and the lifetime in seconds it was stored with.
\<close>

record redis =
  reachable :: bool
  kv :: "string \<rightharpoonup> string \<times> nat"

datatype redis_error = ConnectionRefused

text \<open>\<^verbatim>\<open>redis.get(key)\<close>: the value, \<^verbatim>\<open>null\<close> for an absent key, or a rejection.\<close>

definition redis_get :: "redis \<Rightarrow> string \<Rightarrow> redis_error + string option" where
  "redis_get r k = (if reachable r then Inr (map_option fst (kv r k)) else Inl ConnectionRefused)"

text \<open>\<^verbatim>\<open>redis.set(key, value, 'EX', seconds)\<close>; nothing is stored when the connection is
  down.\<close>

definition redis_set_ex :: "redis \<Rightarrow> string \<Rightarrow> string \<Rightarrow> nat \<Rightarrow> redis" where
  "redis_set_ex r k v seconds = (if reachable r then r\<lparr>kv := (kv r)(k \<mapsto> (v, seconds))\<rparr> else r)"

section \<open>SkinService.getSkinsByWorker\<close>

text \<open>
  What \<^verbatim>\<open>res.send\<close> sends: \<open>FromCache v\<close> is the 200 reply
  \<^verbatim>\<open>{statusCode: 200, msg: 'Skins retrieved successfully (from cache)', data: v}\<close>, and
  \<open>ServerError e\<close> is \<^verbatim>\<open>res.status(500).send({error: e})\<close>.
\<close>

datatype 'v skins_reply = FromCache 'v | ServerError string

text \<open>The reply object: what was sent, the calls of \<^verbatim>\<open>res.raw.write\<close> in order, and
  whether \<^verbatim>\<open>res.raw.end\<close> was called.\<close>

record 'v response =
  replied :: "'v skins_reply option"
  written :: "string list"
  ended :: bool

text \<open>The state the handlers of one request share.\<close>

record 'v pipeline =
  res :: "'v response"
  responseData :: string
  cache :: redis
  spawned :: bool

definition cacheKey :: string where
  "cacheKey = ''skins_data''"

text \<open>
  \<^verbatim>\<open>worker.on('message', ...)\<close>. A message that is not \<^verbatim>\<open>null\<close> is a string;
  \<^verbatim>\<open>JSON.parse(JSON.stringify(message))\<close> gives that string back.
\<close>

definition on_message :: "string option \<Rightarrow> 'v pipeline \<Rightarrow> 'v pipeline" where
  "on_message message p =
     (case message of
        Some data \<Rightarrow>
          p\<lparr>res := (res p)\<lparr>written := written (res p) @ [data]\<rparr>,
            responseData := responseData p @ data\<rparr>
      | None \<Rightarrow> p\<lparr>res := (res p)\<lparr>ended := True\<rparr>\<rparr>)"

text \<open>\<^verbatim>\<open>worker.on('error', ...)\<close>.\<close>

definition on_error :: "string option \<Rightarrow> 'v pipeline \<Rightarrow> 'v pipeline" where
  "on_error err p =
     (case err of
        None \<Rightarrow> p
      | Some e \<Rightarrow> p\<lparr>res := (res p)\<lparr>replied := Some (ServerError ''Internal server error'')\<rparr>\<rparr>)"

text \<open>\<^verbatim>\<open>worker.on('exit', ...)\<close>.\<close>

definition on_exit :: "int \<Rightarrow> 'v pipeline \<Rightarrow> 'v pipeline" where
  "on_exit code p =
     (if code \<noteq> 0 then p
      else p\<lparr>cache := redis_set_ex (cache p) cacheKey (responseData p) 300\<rparr>)"

text \<open>The events of one worker thread, in the order they arrive: its messages, its
  error, its exit.\<close>

definition drive :: "worker_run \<Rightarrow> 'v pipeline \<Rightarrow> 'v pipeline" where
  "drive w p =
     on_exit (exit_code w) (on_error (uncaught w) (foldl (\<lambda>q m. on_message m q) p (posted w)))"

text \<open>
  \<^verbatim>\<open>getSkinsByWorker\<close>. \<open>parse\<close> is \<^verbatim>\<open>JSON.parse\<close> (\<open>None\<close>: it throws a
  \<^verbatim>\<open>SyntaxError\<close>, inside the \<^verbatim>\<open>try\<close>), \<open>w\<close> is what the thread started by
  \<^verbatim>\<open>new Worker\<close> does, \<open>r\<close> is the cache. \<^verbatim>\<open>if (cachedData)\<close> holds for a string
  that is not empty.
\<close>

definition getSkinsByWorker ::
  "(string \<Rightarrow> 'v option) \<Rightarrow> worker_run \<Rightarrow> redis \<Rightarrow> 'v pipeline" where
  "getSkinsByWorker parse w r =
     (let failed = \<lparr>res = \<lparr>replied = Some (ServerError ''Internal server error (cache)''),
                            written = [], ended = False\<rparr>,
                     responseData = [], cache = r, spawned = False\<rparr>;
          miss = drive w \<lparr>res = \<lparr>replied = None, written = [[]], ended = False\<rparr>,
                          responseData = [], cache = r, spawned = True\<rparr>
      in case redis_get r cacheKey of
           Inl e \<Rightarrow> failed
         | Inr None \<Rightarrow> miss
         | Inr (Some cachedData) \<Rightarrow>
             if cachedData \<noteq> [] then
               (case parse cachedData of
                  None \<Rightarrow> failed
                | Some v \<Rightarrow>
                    \<lparr>res = \<lparr>replied = Some (FromCache v), written = [], ended = False\<rparr>,
                     responseData = [], cache = r, spawned = False\<rparr>)
             else miss)"

text \<open>The strings among the messages of a worker, in order (\<^verbatim>\<open>null\<close> left out): what
  the \<^verbatim>\<open>message\<close> handler writes to the client and appends to \<^verbatim>\<open>responseData\<close>.\<close>

fun texts :: "string option list \<Rightarrow> string list" where
  "texts [] = []"
| "texts (None # ms) = texts ms"
| "texts (Some d # ms) = d # texts ms"

text \<open>No key of the cache holds the empty string.\<close>

definition nonempty_values :: "redis \<Rightarrow> bool" where
  "nonempty_values r = (\<forall>k v t. kv r k = Some (v, t) \<longrightarrow> v \<noteq> [])"

section \<open>The balance ledger: properties\<close>

lemmas repo_defs = begin_txn_def getUserForUpdate_def rollBack_def commit_def
  updateUserBalance_def

lemma query_healthy:
  "True \<notin> set (faults st) \<Longrightarrow>
   query s st = exec s (st\<lparr>sent := sent st @ [s], faults := tl (faults st)\<rparr>)"
  by (cases "faults st") (auto simp: query_def Let_def)

lemma tl_healthy: "True \<notin> set fs \<Longrightarrow> True \<notin> set (tl fs)"
  by (cases fs) auto









lemma try_deduct_no_row:
  assumes "True \<notin> set (faults st)" and "snapshot st = None"
    and "int4 v = Some u" and "filter (\<lambda>x. user_id x = u) (rows st) = []"
  shows "try_deduct v amt st =
     (Inr (Failure (Text ''User not found'')),
      st\<lparr>sent := sent st @ [Begin, SelectForUpdate v, Rollback],
         faults := tl (tl (tl (faults st)))\<rparr>)"
  using assms
  by (simp add: try_deduct_def repo_defs query_healthy tl_healthy Let_def)

text \<open>A \<^verbatim>\<open>userId\<close> that is not an integer of the store: the locking \<^verbatim>\<open>SELECT\<close> throws.\<close>

lemma deductBalance_not_an_id:
  assumes "True \<notin> set (faults st)" and "snapshot st = None" and "int4 v = None"
  shows "deductBalance v amt st =
     (Inr (Failure (Caught InvalidInteger)),
      st\<lparr>sent := sent st @ [Begin, SelectForUpdate v, Rollback],
         faults := tl (tl (tl (faults st)))\<rparr>)"
  using assms
  by (simp add: deductBalance_def try_deduct_def repo_defs query_healthy tl_healthy Let_def)

text \<open>A debit whose \<^verbatim>\<open>userId\<close> is the id of no row never changes the committed table,
  whatever the store does.\<close>

lemma deductBalance_unknown_committed:
  assumes "\<forall>u. int4 v = Some u \<longrightarrow> u \<notin> user_id ` set (rows st)"
  shows "committed (snd (deductBalance v amt st)) = committed st"
proof (cases "int4 v")
  case None
  then show ?thesis
    by (auto simp: deductBalance_def try_deduct_def repo_defs query_def Let_def committed_def
        split: option.splits list.splits prod.splits sum.splits if_splits)
next
  case (Some u)
  with assms have "filter (\<lambda>x. user_id x = u) (rows st) = []"
    by (auto simp: filter_empty_conv)
  with Some show ?thesis
    by (auto simp: deductBalance_def try_deduct_def repo_defs query_def Let_def committed_def
        split: option.splits list.splits prod.splits sum.splits if_splits)
qed

text \<open>
  C4, as stated, fails for a \<^verbatim>\<open>userId\<close> that references no account because it is not an
  integer of the store: \<^verbatim>\<open>Infinity\<close> (which the validation of \<^verbatim>\<open>simpleBuyItem\<close> lets
  through) and 2147483648. The locking \<^verbatim>\<open>SELECT\<close> throws, the \<^verbatim>\<open>catch\<close> block rolls back,
  and the message returned is the store's error, not \<^verbatim>\<open>'User not found'\<close>.
\<close>

theorem deductBalance_userId_not_an_integer:
  "deductBalance PosInf (Fin 400) seeded_store =
     (Inr (Failure (Caught InvalidInteger)),
      seeded_store\<lparr>sent := [Begin, SelectForUpdate PosInf, Rollback]\<rparr>) \<and>
   deductBalance (Fin 2147483648) (Fin 400) seeded_store =
     (Inr (Failure (Caught InvalidInteger)),
      seeded_store\<lparr>sent := [Begin, SelectForUpdate (Fin 2147483648), Rollback]\<rparr>) \<and>
   fst (deductBalance PosInf (Fin 400) seeded_store) \<noteq> Inr (Failure (Text ''User not found''))"
  by (simp add: deductBalance_def try_deduct_def repo_defs query_def seeded_store_def Let_def
      int4_def)

text \<open>
  C4, amended. A debit whose \<^verbatim>\<open>userId\<close> is the id of no row never changes the committed
  table, whatever the store does. When the store answers every statement (no transaction
  open before) and the \<^verbatim>\<open>userId\<close> is a whole number in the range of \<^verbatim>\<open>INT\<close>, the
  operation sends \<^verbatim>\<open>BEGIN\<close>, the locking \<^verbatim>\<open>SELECT\<close> and \<^verbatim>\<open>ROLLBACK\<close>, leaves no
  transaction open and returns \<^verbatim>\<open>'User not found'\<close>; for any other \<^verbatim>\<open>userId\<close> it sends
  the same three statements, leaves no transaction open and returns the store's error.
\<close>

theorem deductBalance_unknown_user:
  assumes "\<forall>u. int4 v = Some u \<longrightarrow> u \<notin> user_id ` set (rows st)"
  shows "committed (snd (deductBalance v amt st)) = committed st \<and>
         (int4 v \<noteq> None \<and> True \<notin> set (faults st) \<and> snapshot st = None \<longrightarrow>
            fst (deductBalance v amt st) = Inr (Failure (Text ''User not found'')) \<and>
            rows (snd (deductBalance v amt st)) = rows st \<and>
            snapshot (snd (deductBalance v amt st)) = None \<and>
            sent (snd (deductBalance v amt st)) =
              sent st @ [Begin, SelectForUpdate v, Rollback]) \<and>
         (int4 v = None \<and> True \<notin> set (faults st) \<and> snapshot st = None \<longrightarrow>
            fst (deductBalance v amt st) = Inr (Failure (Caught InvalidInteger)) \<and>
            rows (snd (deductBalance v amt st)) = rows st \<and>
            snapshot (snd (deductBalance v amt st)) = None \<and>
            sent (snd (deductBalance v amt st)) =
              sent st @ [Begin, SelectForUpdate v, Rollback])"
proof (intro conjI impI)
  show "committed (snd (deductBalance v amt st)) = committed st"
    using assms by (rule deductBalance_unknown_committed)
next
  assume h: "int4 v \<noteq> None \<and> True \<notin> set (faults st) \<and> snapshot st = None"
  then obtain u where u: "int4 v = Some u" by auto
  with assms have f: "filter (\<lambda>x. user_id x = u) (rows st) = []"
    by (auto simp: filter_empty_conv)
  have d: "deductBalance v amt st =
     (Inr (Failure (Text ''User not found'')),
      st\<lparr>sent := sent st @ [Begin, SelectForUpdate v, Rollback],
         faults := tl (tl (tl (faults st)))\<rparr>)"
    using h u f by (simp add: deductBalance_def try_deduct_no_row)
  show "fst (deductBalance v amt st) = Inr (Failure (Text ''User not found''))"
    by (simp add: d)
  show "rows (snd (deductBalance v amt st)) = rows st"
    by (simp add: d)
  show "snapshot (snd (deductBalance v amt st)) = None"
    using h by (simp add: d)
  show "sent (snd (deductBalance v amt st)) = sent st @ [Begin, SelectForUpdate v, Rollback]"
    by (simp add: d)
next
  assume h: "int4 v = None \<and> True \<notin> set (faults st) \<and> snapshot st = None"
  then have d: "deductBalance v amt st =
     (Inr (Failure (Caught InvalidInteger)),
      st\<lparr>sent := sent st @ [Begin, SelectForUpdate v, Rollback],
         faults := tl (tl (tl (faults st)))\<rparr>)"
    by (simp add: deductBalance_not_an_id)
  show "fst (deductBalance v amt st) = Inr (Failure (Caught InvalidInteger))"
    by (simp add: d)
  show "rows (snd (deductBalance v amt st)) = rows st"
    by (simp add: d)
  show "snapshot (snd (deductBalance v amt st)) = None"
    using h by (simp add: d)
  show "sent (snd (deductBalance v amt st)) = sent st @ [Begin, SelectForUpdate v, Rollback]"
    by (simp add: d)
qed

theorem deductBalance_unknown_user_witness:
  "int4 (Fin 7) = Some 7 \<and> 7 \<notin> user_id ` set (rows seeded_store) \<and>
   True \<notin> set (faults seeded_store) \<and> snapshot seeded_store = None \<and>
   fst (deductBalance (Fin 7) (Fin 400) seeded_store) = Inr (Failure (Text ''User not found'')) \<and>
   rows (snd (deductBalance (Fin 7) (Fin 400) seeded_store)) = rows seeded_store \<and>
   sent (snd (deductBalance (Fin 7) (Fin 400) seeded_store)) =
     [Begin, SelectForUpdate (Fin 7), Rollback] \<and>
   int4 (Fin (3 / 2)) = None \<and>
   fst (deductBalance (Fin (3 / 2)) (Fin 400) seeded_store) =
     Inr (Failure (Caught InvalidInteger)) \<and>
   committed (snd (deductBalance (Fin (3 / 2)) (Fin 400) seeded_store)) = rows seeded_store"
  using deductBalance_unknown_user [of "Fin 7" seeded_store "Fin 400"]
    deductBalance_unknown_user [of "Fin (3 / 2)" seeded_store "Fin 400"]
  by (simp add: seeded_store_def int4_def committed_def)

section \<open>The boundary of the ledger: properties\<close>

lemma exec_sent: "sent (snd (exec s st)) = sent st"
  by (induction s st rule: exec.induct) (simp_all split: option.splits)

lemma query_sent_snd: "sent (snd (query s st)) = sent st @ [s]"
  by (simp add: query_def Let_def exec_sent)

lemma query_sent: "query s st = (x, st') \<Longrightarrow> sent st' = sent st @ [s]"
  using query_sent_snd [of s st] by simp

text \<open>Every run of \<^verbatim>\<open>deductBalance\<close> starts by sending \<^verbatim>\<open>BEGIN\<close>: a store that
  has received no new statement has seen no debit.\<close>

lemma try_deduct_sent:
  "\<exists>ss. sent (snd (try_deduct u a st)) = sent st @ Begin # ss"
  by (auto simp: try_deduct_def repo_defs Let_def dest!: query_sent
      split: prod.splits sum.splits)

lemma deductBalance_sent:
  "\<exists>ss. sent (snd (deductBalance u a st)) = sent st @ Begin # ss"
proof -
  obtain ss where "sent (snd (try_deduct u a st)) = sent st @ Begin # ss"
    using try_deduct_sent by blast
  then show ?thesis
    by (auto simp: deductBalance_def rollBack_def dest!: query_sent
        split: prod.splits sum.splits)
qed

text \<open>\<^verbatim>\<open>Infinity\<close> is truthy, is not \<^verbatim>\<open>NaN\<close> and is not \<^verbatim>\<open><= 0\<close>: the validation lets
  it through.\<close>

lemma simpleBuyItem_passes_infinity:
  assumes "amount b = Some PosInf" and "userId b = Some (Fin u)" and "u \<noteq> 0"
  shows "simpleBuyItem (Some b) st =
     (case deductBalance (Fin u) PosInf st of
        (Inr (Success i nb), st') \<Rightarrow>
          (\<lparr>statusCode = 200, msg = Text ''Balance deducted successfully'',
            user = Some (i, nb), error = None\<rparr>, st')
      | (Inr (Failure m), st') \<Rightarrow>
          (\<lparr>statusCode = 400, msg = m, user = None, error = None\<rparr>, st')
      | (Inl e, st') \<Rightarrow>
          (\<lparr>statusCode = 500, msg = Text ''Internal Server Error'', user = None,
            error = Some (StoreError e)\<rparr>, st'))"
  using assms by (simp add: simpleBuyItem_def isNaN_def)

lemma simpleBuyItem_infinity_sent:
  assumes "amount b = Some PosInf" and "userId b = Some (Fin u)" and "u \<noteq> 0"
  shows "sent (snd (simpleBuyItem (Some b) st)) \<noteq> sent st"
proof -
  obtain ss where "sent (snd (deductBalance (Fin u) PosInf st)) = sent st @ Begin # ss"
    using deductBalance_sent by blast
  then show ?thesis
    by (auto simp: simpleBuyItem_passes_infinity [OF assms]
        split: prod.splits sum.splits debit_result.splits)
qed

text \<open>A request without a body is answered 500, and nothing reaches the store.\<close>

lemma simpleBuyItem_no_body:
  "simpleBuyItem None st =
     (\<lparr>statusCode = 500, msg = Text ''Internal Server Error'', user = None,
       error = Some TypeError\<rparr>, st)"
  by (simp add: simpleBuyItem_def)

text \<open>
  C5, as stated, fails for an amount of \<^verbatim>\<open>Infinity\<close> (the JSON number \<^verbatim>\<open>1e999\<close> parses
  to it). It is not a finite number, yet for account 1 of the seeded table the
  validation lets it through: \<^verbatim>\<open>deductBalance\<close> is invoked, sends \<^verbatim>\<open>BEGIN\<close>, the locking
  \<^verbatim>\<open>SELECT\<close> and \<^verbatim>\<open>ROLLBACK\<close>, and it is the ledger's \<^verbatim>\<open>'Insufficient balance'\<close> that
  the 400 reply carries.
\<close>

theorem simpleBuyItem_infinite_amount:
  "amount \<lparr>userId = Some (Fin 1), amount = Some PosInf\<rparr> = Some PosInf \<and>
   simpleBuyItem (Some \<lparr>userId = Some (Fin 1), amount = Some PosInf\<rparr>) seeded_store =
     (\<lparr>statusCode = 400, msg = Text ''Insufficient balance'', user = None, error = None\<rparr>,
      seeded_store\<lparr>sent := [Begin, SelectForUpdate (Fin 1), Rollback]\<rparr>) \<and>
   sent (snd (simpleBuyItem (Some \<lparr>userId = Some (Fin 1), amount = Some PosInf\<rparr>) seeded_store))
     \<noteq> sent seeded_store"
  by (simp add: simpleBuyItem_def isNaN_def deductBalance_def try_deduct_def repo_defs query_def
      seeded_store_def Let_def int4_def)

text \<open>
  C5, amended. For every request with a body whose amount is missing, \<^verbatim>\<open>NaN\<close>, zero,
  negative or \<^verbatim>\<open>-Infinity\<close>, the boundary answers 400 \<^verbatim>\<open>'Invalid userId or amount'\<close> and
  the store is left as it was, with no statement sent: \<^verbatim>\<open>deductBalance\<close> is not invoked.
  An amount of \<^verbatim>\<open>Infinity\<close> beside a finite \<^verbatim>\<open>userId\<close> other than 0 is not stopped at
  the boundary: statements reach the store.
\<close>

theorem simpleBuyItem_validates_amount:
  "(amount b = None \<or> amount b = Some NaN \<or> amount b = Some NegInf \<or>
      (\<exists>n. n \<le> 0 \<and> amount b = Some (Fin n)) \<longrightarrow>
    simpleBuyItem (Some b) st =
      (\<lparr>statusCode = 400, msg = Text ''Invalid userId or amount'', user = None, error = None\<rparr>,
       st)) \<and>
   (amount b = Some PosInf \<and> userId b = Some (Fin u) \<and> u \<noteq> 0 \<longrightarrow>
    sent (snd (simpleBuyItem (Some b) st)) \<noteq> sent st)"
proof (intro conjI impI)
  assume "amount b = None \<or> amount b = Some NaN \<or> amount b = Some NegInf \<or>
      (\<exists>n. n \<le> 0 \<and> amount b = Some (Fin n))"
  then show "simpleBuyItem (Some b) st =
      (\<lparr>statusCode = 400, msg = Text ''Invalid userId or amount'', user = None, error = None\<rparr>,
       st)"
    by (auto simp: simpleBuyItem_def isNaN_def)
next
  assume "amount b = Some PosInf \<and> userId b = Some (Fin u) \<and> u \<noteq> 0"
  then show "sent (snd (simpleBuyItem (Some b) st)) \<noteq> sent st"
    using simpleBuyItem_infinity_sent by blast
qed

theorem simpleBuyItem_validates_amount_witness:
  "simpleBuyItem (Some \<lparr>userId = Some (Fin 1), amount = Some (Fin (- 5))\<rparr>) seeded_store =
     (\<lparr>statusCode = 400, msg = Text ''Invalid userId or amount'', user = None, error = None\<rparr>,
      seeded_store) \<and>
   simpleBuyItem (Some \<lparr>userId = Some (Fin 1), amount = Some (Fin 0)\<rparr>) seeded_store =
     (\<lparr>statusCode = 400, msg = Text ''Invalid userId or amount'', user = None, error = None\<rparr>,
      seeded_store) \<and>
   simpleBuyItem (Some \<lparr>userId = Some (Fin 1), amount = None\<rparr>) seeded_store =
     (\<lparr>statusCode = 400, msg = Text ''Invalid userId or amount'', user = None, error = None\<rparr>,
      seeded_store) \<and>
   sent (snd (simpleBuyItem (Some \<lparr>userId = Some (Fin 1), amount = Some PosInf\<rparr>) seeded_store))
     \<noteq> sent seeded_store"
  using
    simpleBuyItem_validates_amount
      [of "\<lparr>userId = Some (Fin 1), amount = Some (Fin (- 5))\<rparr>" seeded_store 1]
    simpleBuyItem_validates_amount
      [of "\<lparr>userId = Some (Fin 1), amount = Some (Fin 0)\<rparr>" seeded_store 1]
    simpleBuyItem_validates_amount
      [of "\<lparr>userId = Some (Fin 1), amount = None\<rparr>" seeded_store 1]
    simpleBuyItem_validates_amount
      [of "\<lparr>userId = Some (Fin 1), amount = Some PosInf\<rparr>" seeded_store 1]
  by simp

section \<open>The fetch task: properties\<close>

lemma length_merge_items: "length (merge_items nts ts) = length nts"
  by (simp add: merge_items_def map_indexed_def)

lemma nth_merge_items:
  "i < length nts \<Longrightarrow>
   merge_items nts ts ! i =
     \<lparr>name = market_hash_name (nts ! i), min_price_non_tradable = min_price (nts ! i),
      min_price_tradable = or_null (price_at ts i)\<rparr>"
  by (simp add: merge_items_def map_indexed_def)

lemma or_null_None: "(or_null p = None) = (p = None \<or> p = Some 0)"
  by (cases p) auto

text \<open>
  C7. For every pair of listings the thread posts exactly two messages: the JSON text of
  the merged list, then \<^verbatim>\<open>null\<close>. The merged list has one record for each non-tradable
  item, and the record at index \<open>i\<close> has the name and the min price of the non-tradable
  item at \<open>i\<close> and the min price of the tradable item at the same index \<open>i\<close>, whatever
  the names are, read through \<^verbatim>\<open>|| null\<close>.
\<close>

theorem fetchItems_positional_merge:
  "posted (skin_worker enc quote (Fetched nts ts)) =
     [Some (JSON_stringify_array enc (merge_items nts ts)), None] \<and>
   length (merge_items nts ts) = length nts \<and>
   (\<forall>i < length nts.
      name (merge_items nts ts ! i) = market_hash_name (nts ! i) \<and>
      min_price_non_tradable (merge_items nts ts ! i) = min_price (nts ! i) \<and>
      min_price_tradable (merge_items nts ts ! i) = or_null (price_at ts i))"
  by (simp add: skin_worker_def fetchItems_def length_merge_items nth_merge_items)

theorem fetchItems_positional_merge_witness:
  "posted (skin_worker name (\<lambda>s. s)
     (Fetched [\<lparr>market_hash_name = ''A'', min_price = Some 10\<rparr>,
               \<lparr>market_hash_name = ''B'', min_price = None\<rparr>]
              [\<lparr>market_hash_name = ''B'', min_price = Some 7\<rparr>,
               \<lparr>market_hash_name = ''A'', min_price = Some 12\<rparr>])) =
     [Some ''[A,B]'', None] \<and>
   merge_items [\<lparr>market_hash_name = ''A'', min_price = Some 10\<rparr>,
                \<lparr>market_hash_name = ''B'', min_price = None\<rparr>]
               [\<lparr>market_hash_name = ''B'', min_price = Some 7\<rparr>,
                \<lparr>market_hash_name = ''A'', min_price = Some 12\<rparr>] ! 0 =
     \<lparr>name = ''A'', min_price_non_tradable = Some 10, min_price_tradable = Some 7\<rparr> \<and>
   merge_items [\<lparr>market_hash_name = ''A'', min_price = Some 10\<rparr>,
                \<lparr>market_hash_name = ''B'', min_price = None\<rparr>]
               [\<lparr>market_hash_name = ''B'', min_price = Some 7\<rparr>,
                \<lparr>market_hash_name = ''A'', min_price = Some 12\<rparr>] ! 1 =
     \<lparr>name = ''B'', min_price_non_tradable = None, min_price_tradable = Some 12\<rparr>"
  using fetchItems_positional_merge
    [of name "\<lambda>s. s" "[\<lparr>market_hash_name = ''A'', min_price = Some 10\<rparr>,
                      \<lparr>market_hash_name = ''B'', min_price = None\<rparr>]"
        "[\<lparr>market_hash_name = ''B'', min_price = Some 7\<rparr>,
          \<lparr>market_hash_name = ''A'', min_price = Some 12\<rparr>]"]
  by (simp add: JSON_stringify_array_def merge_items_def map_indexed_def price_at_def upt_rec)

text \<open>
  C10. The merged list is as long as the non-tradable listing, and the tradable min price
  of the record at index \<open>i\<close> is \<^verbatim>\<open>null\<close> exactly when the tradable listing has no item
  at \<open>i\<close>, or that item's min price is absent, or it is 0.
\<close>

theorem merged_tradable_price_null:
  "length (merge_items nts ts) = length nts \<and>
   (\<forall>i < length nts.
      (min_price_tradable (merge_items nts ts ! i) = None) =
      (length ts \<le> i \<or> min_price (ts ! i) = None \<or> min_price (ts ! i) = Some 0))"
  by (auto simp: length_merge_items nth_merge_items or_null_None price_at_def)

theorem merged_tradable_price_null_witness:
  "length (merge_items
     [\<lparr>market_hash_name = ''A'', min_price = Some 10\<rparr>,
      \<lparr>market_hash_name = ''B'', min_price = Some 5\<rparr>,
      \<lparr>market_hash_name = ''C'', min_price = Some 3\<rparr>,
      \<lparr>market_hash_name = ''D'', min_price = Some 2\<rparr>]
     [\<lparr>market_hash_name = ''A'', min_price = Some 7\<rparr>,
      \<lparr>market_hash_name = ''B'', min_price = Some 0\<rparr>,
      \<lparr>market_hash_name = ''C'', min_price = None\<rparr>]) = 4 \<and>
   map min_price_tradable (merge_items
     [\<lparr>market_hash_name = ''A'', min_price = Some 10\<rparr>,
      \<lparr>market_hash_name = ''B'', min_price = Some 5\<rparr>,
      \<lparr>market_hash_name = ''C'', min_price = Some 3\<rparr>,
      \<lparr>market_hash_name = ''D'', min_price = Some 2\<rparr>]
     [\<lparr>market_hash_name = ''A'', min_price = Some 7\<rparr>,
      \<lparr>market_hash_name = ''B'', min_price = Some 0\<rparr>,
      \<lparr>market_hash_name = ''C'', min_price = None\<rparr>]) = [Some 7, None, None, None]"
  using merged_tradable_price_null
    [of "[\<lparr>market_hash_name = ''A'', min_price = Some 10\<rparr>,
          \<lparr>market_hash_name = ''B'', min_price = Some 5\<rparr>,
          \<lparr>market_hash_name = ''C'', min_price = Some 3\<rparr>,
          \<lparr>market_hash_name = ''D'', min_price = Some 2\<rparr>]"
        "[\<lparr>market_hash_name = ''A'', min_price = Some 7\<rparr>,
          \<lparr>market_hash_name = ''B'', min_price = Some 0\<rparr>,
          \<lparr>market_hash_name = ''C'', min_price = None\<rparr>]"]
  by (simp add: merge_items_def map_indexed_def price_at_def upt_rec)

section \<open>The catalog cache pipeline: properties\<close>

lemma stringify_nonempty: "JSON_stringify_array enc xs \<noteq> []"
  by (simp add: JSON_stringify_array_def)

lemma hit_general:
  assumes "reachable r" and "kv r cacheKey = Some (s, ttl)" and "s \<noteq> []"
  shows "getSkinsByWorker parse w r =
     \<lparr>res = \<lparr>replied = Some (case parse s of
                                None \<Rightarrow> ServerError ''Internal server error (cache)''
                              | Some v \<Rightarrow> FromCache v),
              written = [], ended = False\<rparr>,
      responseData = [], cache = r, spawned = False\<rparr>"
  using assms by (simp add: getSkinsByWorker_def redis_get_def Let_def split: option.splits)

lemma miss_general:
  assumes "reachable r" and "kv r cacheKey = None"
  shows "getSkinsByWorker parse w r =
     drive w \<lparr>res = \<lparr>replied = None, written = [[]], ended = False\<rparr>,
               responseData = [], cache = r, spawned = True\<rparr>"
  using assms by (simp add: getSkinsByWorker_def redis_get_def Let_def)

lemma drive_success:
  "drive (skin_worker enc quote (Fetched nts ts))
     \<lparr>res = \<lparr>replied = None, written = [[]], ended = False\<rparr>,
      responseData = [], cache = r, spawned = True\<rparr> =
   \<lparr>res = \<lparr>replied = None, written = [[], JSON_stringify_array enc (merge_items nts ts)],
            ended = True\<rparr>,
    responseData = JSON_stringify_array enc (merge_items nts ts),
    cache = redis_set_ex r cacheKey (JSON_stringify_array enc (merge_items nts ts)) 300,
    spawned = True\<rparr>"
  by (simp add: drive_def skin_worker_def fetchItems_def on_message_def on_error_def on_exit_def)

lemma drive_failure:
  "drive (skin_worker enc quote (RequestFailed d))
     \<lparr>res = \<lparr>replied = None, written = [[]], ended = False\<rparr>,
      responseData = [], cache = r, spawned = True\<rparr> =
   \<lparr>res = \<lparr>replied = None, written = [[], error_text quote d], ended = False\<rparr>,
    responseData = error_text quote d,
    cache = redis_set_ex r cacheKey (error_text quote d) 300,
    spawned = True\<rparr>"
  by (simp add: drive_def skin_worker_def fetchItems_def on_message_def on_error_def on_exit_def)

text \<open>What the handlers make of any sequence of messages.\<close>

lemma foldl_on_message:
  "foldl (\<lambda>q m. on_message m q) p ms =
     p\<lparr>res := (res p)\<lparr>written := written (res p) @ texts ms,
                        ended := ended (res p) \<or> None \<in> set ms\<rparr>,
       responseData := responseData p @ concat (texts ms)\<rparr>"
proof (induction ms arbitrary: p)
  case Nil
  then show ?case by simp
next
  case (Cons m ms)
  then show ?case by (cases m) (auto simp: on_message_def)
qed

lemma cache_written_iff_exit_zero:
  assumes "reachable r" and "kv r cacheKey = None"
  shows "kv (cache (getSkinsByWorker parse w r)) cacheKey =
     (if exit_code w = 0 then Some (concat (texts (posted w)), 300) else None)"
  using assms
  by (cases "uncaught w")
     (simp_all add: getSkinsByWorker_def redis_get_def Let_def drive_def on_exit_def on_error_def
        foldl_on_message redis_set_ex_def)

text \<open>The thread of \<^verbatim>\<open>skin.worker.js\<close> never leaves the empty string under a key: in a
  cache that only this pipeline fills, a key that is present holds a truthy string.\<close>

lemma fetchItems_texts_nonempty: "concat (texts (fetchItems enc quote up)) \<noteq> []"
  by (cases up) (simp_all add: fetchItems_def JSON_stringify_array_def error_text_def)

lemma pipeline_keeps_values_nonempty:
  assumes "nonempty_values r"
  shows "nonempty_values (cache (getSkinsByWorker parse (skin_worker enc quote up) r))"
  using assms fetchItems_texts_nonempty [of enc quote up]
  by (auto simp: getSkinsByWorker_def redis_get_def Let_def drive_def on_exit_def on_error_def
        foldl_on_message redis_set_ex_def skin_worker_def nonempty_values_def
        split: option.splits if_splits)

text \<open>
  C8. When the lookup finds a value under the cache key (a string that is not empty, the
  test of \<^verbatim>\<open>if (cachedData)\<close>), no worker is started and the outcome is the same whatever
  a worker would have done: the price source plays no part. Nothing is streamed, the
  cache is left as it is, and a snapshot that parses is sent back in the 200 reply.
\<close>

theorem cache_hit_no_worker:
  assumes "reachable r" and "kv r cacheKey = Some (s, ttl)" and "s \<noteq> []"
  shows "\<not> spawned (getSkinsByWorker parse w r) \<and>
         getSkinsByWorker parse w r = getSkinsByWorker parse w' r \<and>
         cache (getSkinsByWorker parse w r) = r \<and>
         written (res (getSkinsByWorker parse w r)) = [] \<and>
         (\<forall>v. parse s = Some v \<longrightarrow>
            replied (res (getSkinsByWorker parse w r)) = Some (FromCache v))"
  using assms by (simp add: hit_general)

theorem cache_hit_no_worker_witness:
  "reachable \<lparr>reachable = True, kv = [cacheKey \<mapsto> (''[A]'', 300)]\<rparr> \<and>
   \<not> spawned (getSkinsByWorker Some (skin_worker name (\<lambda>s. s) (RequestFailed ''down''))
        \<lparr>reachable = True, kv = [cacheKey \<mapsto> (''[A]'', 300)]\<rparr>) \<and>
   replied (res (getSkinsByWorker Some (skin_worker name (\<lambda>s. s) (RequestFailed ''down''))
        \<lparr>reachable = True, kv = [cacheKey \<mapsto> (''[A]'', 300)]\<rparr>)) = Some (FromCache ''[A]'')"
  using cache_hit_no_worker
    [of "\<lparr>reachable = True, kv = [cacheKey \<mapsto> (''[A]'', 300)]\<rparr>" "''[A]''" 300 Some
        "skin_worker name (\<lambda>s. s) (RequestFailed ''down'')"]
  by simp

text \<open>
  C9. When the lookup itself fails, the reply is 500
  \<^verbatim>\<open>'Internal server error (cache)'\<close>; no worker is started, the outcome does not depend on
  what a worker would have done, and nothing is streamed or cached.
\<close>

theorem cache_failure_fails_fast:
  assumes "\<not> reachable r"
  shows "replied (res (getSkinsByWorker parse w r)) =
           Some (ServerError ''Internal server error (cache)'') \<and>
         \<not> spawned (getSkinsByWorker parse w r) \<and>
         getSkinsByWorker parse w r = getSkinsByWorker parse w' r \<and>
         written (res (getSkinsByWorker parse w r)) = [] \<and>
         cache (getSkinsByWorker parse w r) = r"
  using assms by (simp add: getSkinsByWorker_def redis_get_def Let_def)

theorem cache_failure_fails_fast_witness:
  "\<not> reachable \<lparr>reachable = False, kv = Map.empty\<rparr> \<and>
   replied (res (getSkinsByWorker Some
      (skin_worker name (\<lambda>s. s) (Fetched [\<lparr>market_hash_name = ''A'', min_price = Some 10\<rparr>] []))
      \<lparr>reachable = False, kv = Map.empty\<rparr>)) =
     Some (ServerError ''Internal server error (cache)'') \<and>
   \<not> spawned (getSkinsByWorker Some
      (skin_worker name (\<lambda>s. s) (Fetched [\<lparr>market_hash_name = ''A'', min_price = Some 10\<rparr>] []))
      \<lparr>reachable = False, kv = Map.empty\<rparr>)"
  using cache_failure_fails_fast
    [of "\<lparr>reachable = False, kv = Map.empty\<rparr>" Some
        "skin_worker name (\<lambda>s. s) (Fetched [\<lparr>market_hash_name = ''A'', min_price = Some 10\<rparr>] [])"]
  by simp

text \<open>
  C6. On a miss followed by a fetch that succeeds, the text streamed to the client is the
  JSON text of the merged list, the stream is ended, and the cache key holds exactly the
  streamed text with a lifetime of 300 seconds. A later request finds it and replies with
  what that very text parses to: the value the client reads off the stream.
\<close>

theorem cached_snapshot_round_trip:
  assumes "reachable r" and "kv r cacheKey = None"
  shows "concat (written (res (getSkinsByWorker parse (skin_worker enc quote (Fetched nts ts)) r))) =
           JSON_stringify_array enc (merge_items nts ts) \<and>
         ended (res (getSkinsByWorker parse (skin_worker enc quote (Fetched nts ts)) r)) \<and>
         kv (cache (getSkinsByWorker parse (skin_worker enc quote (Fetched nts ts)) r)) cacheKey =
           Some (concat (written (res (getSkinsByWorker parse
                   (skin_worker enc quote (Fetched nts ts)) r))), 300) \<and>
         (\<forall>v. parse (concat (written (res (getSkinsByWorker parse
                   (skin_worker enc quote (Fetched nts ts)) r)))) = Some v \<longrightarrow>
            getSkinsByWorker parse w
              (cache (getSkinsByWorker parse (skin_worker enc quote (Fetched nts ts)) r)) =
            \<lparr>res = \<lparr>replied = Some (FromCache v), written = [], ended = False\<rparr>,
             responseData = [],
             cache = cache (getSkinsByWorker parse (skin_worker enc quote (Fetched nts ts)) r),
             spawned = False\<rparr>)"
proof -
  let ?s = "JSON_stringify_array enc (merge_items nts ts)"
  let ?out = "getSkinsByWorker parse (skin_worker enc quote (Fetched nts ts)) r"
  have out: "?out =
     \<lparr>res = \<lparr>replied = None, written = [[], ?s], ended = True\<rparr>,
      responseData = ?s, cache = redis_set_ex r cacheKey ?s 300, spawned = True\<rparr>"
    using assms by (simp add: miss_general drive_success)
  have c: "reachable (cache ?out)" "kv (cache ?out) cacheKey = Some (?s, 300)"
    using assms(1) by (simp_all add: out redis_set_ex_def)
  have w: "concat (written (res ?out)) = ?s"
    by (simp add: out)
  show ?thesis
    using hit_general [OF c stringify_nonempty, of parse w] c(2)
    by (auto simp: w) (simp add: out)
qed

theorem cached_snapshot_round_trip_witness:
  "reachable \<lparr>reachable = True, kv = Map.empty\<rparr> \<and>
   kv \<lparr>reachable = True, kv = Map.empty\<rparr> cacheKey = None \<and>
   written (res (getSkinsByWorker Some
      (skin_worker name (\<lambda>s. s) (Fetched [\<lparr>market_hash_name = ''A'', min_price = Some 10\<rparr>] []))
      \<lparr>reachable = True, kv = Map.empty\<rparr>)) = [[], ''[A]''] \<and>
   kv (cache (getSkinsByWorker Some
      (skin_worker name (\<lambda>s. s) (Fetched [\<lparr>market_hash_name = ''A'', min_price = Some 10\<rparr>] []))
      \<lparr>reachable = True, kv = Map.empty\<rparr>)) cacheKey = Some (''[A]'', 300) \<and>
   replied (res (getSkinsByWorker Some (skin_worker name (\<lambda>s. s) (RequestFailed ''down''))
     (cache (getSkinsByWorker Some
        (skin_worker name (\<lambda>s. s) (Fetched [\<lparr>market_hash_name = ''A'', min_price = Some 10\<rparr>] []))
        \<lparr>reachable = True, kv = Map.empty\<rparr>)))) = Some (FromCache ''[A]'')"
  using cached_snapshot_round_trip
    [of "\<lparr>reachable = True, kv = Map.empty\<rparr>" Some name "\<lambda>s. s"
        "[\<lparr>market_hash_name = ''A'', min_price = Some 10\<rparr>]" "[]"
        "skin_worker name (\<lambda>s. s) (RequestFailed ''down'')"]
  by (simp add: JSON_stringify_array_def merge_items_def map_indexed_def price_at_def upt_rec
      miss_general drive_success)

text \<open>
  C2 at a request that fails. \<^verbatim>\<open>fetchItems\<close> catches the failure and posts the error
  text; the thread then ends with exit code 0, so the \<^verbatim>\<open>exit\<close> handler stores the error
  text under the cache key for 300 seconds. The stream is never ended.
\<close>

theorem fetch_failure_is_cached:
  "kv (cache (getSkinsByWorker parse (skin_worker enc quote (RequestFailed d))
        \<lparr>reachable = True, kv = Map.empty\<rparr>)) cacheKey = Some (error_text quote d, 300) \<and>
   written (res (getSkinsByWorker parse (skin_worker enc quote (RequestFailed d))
        \<lparr>reachable = True, kv = Map.empty\<rparr>)) = [[], error_text quote d] \<and>
   \<not> ended (res (getSkinsByWorker parse (skin_worker enc quote (RequestFailed d))
        \<lparr>reachable = True, kv = Map.empty\<rparr>)) \<and>
   exit_code (skin_worker enc quote (RequestFailed d)) = 0"
proof -
  have "exit_code (skin_worker enc quote (RequestFailed d)) = 0"
    by (simp add: skin_worker_def)
  then show ?thesis
    by (simp add: miss_general drive_failure redis_set_ex_def)
qed


end
